theory Spec2Isabelle
  imports Complex_Main "HOL-Library.Monad_Syntax" "HOL-Library.Word"
begin

section \<open>NativeCameraProcessor: data model\<close>

text \<open>
  The development follows \<^verbatim>\<open>src/native/cpp/NativeCameraProcessor.cpp\<close>.
  A C++ \<^verbatim>\<open>double\<close> or \<^verbatim>\<open>float\<close> is a \<^typ>\<open>real\<close> (rounding, infinities and
  NaN are outside the model), an \<^verbatim>\<open>int\<close> is an \<^typ>\<open>int\<close> (the class counts cameras,
  points and pixels with them and nothing else, far below the 32-bit range), a
  \<^verbatim>\<open>size_t\<close> is a \<^typ>\<open>nat\<close>.
  \<^verbatim>\<open>cv::Mat\<close> and \<^verbatim>\<open>cv::KeyPoint\<close> are opaque to the class: they are the type
  parameters \<open>'m\<close> and \<open>'k\<close>.  A \<^verbatim>\<open>std::vector\<close> is a list; a subscript out of
  range is undefined behaviour in C++ and is the result \<open>None\<close> here.
\<close>

type_synonym Size = "int \<times> int"
type_synonym Point2f = "real \<times> real"
type_synonym Point3f = "real \<times> real \<times> real"
type_synonym Scalar = "real \<times> real \<times> real \<times> real"

record DMatch =
  queryIdx :: int
  trainIdx :: int
  distance :: real

record SiftParams =
  nfeatures :: int
  nOctaveLayers :: int
  contrastThreshold :: real
  edgeThreshold :: real
  sigma :: real

datatype calib_flag =
    CALIB_FIX_PRINCIPAL_POINT
  | CALIB_FIX_ASPECT_RATIO
  | CALIB_ZERO_TANGENT_DIST
  | CALIB_FIX_INTRINSIC
  | CALIB_ZERO_DISPARITY

text \<open>
  The library calls the class makes (OpenCV).  They are not code of the repository:
  the model takes them as a record of functions and every theorem holds for each such
  record.  An in/out argument is an argument and a component of the result.  Calls are
  taken to return (an exception thrown inside the library is outside the model).
  \<open>cv_stereoCalibrate\<close> is called with \<^verbatim>\<open>CALIB_FIX_INTRINSIC\<close>, under which the
  library leaves the four intrinsic arguments as they are: they are arguments only.
\<close>

record ('m, 'k) opencv =
  cv_Mat :: "'m"  \<comment> \<open>\<^verbatim>\<open>Mat()\<close>, the default-constructed matrix\<close>
  cv_empty :: "'m \<Rightarrow> bool"
  cv_rows :: "'m \<Rightarrow> int"
  cv_cols :: "'m \<Rightarrow> int"
  cv_size :: "'m \<Rightarrow> Size"
  cv_at :: "'m \<Rightarrow> int \<Rightarrow> int \<Rightarrow> real"
  cv_zeros :: "int \<Rightarrow> int \<Rightarrow> 'm"
  cv_hconcat :: "'m \<Rightarrow> 'm \<Rightarrow> 'm"
  cv_mul :: "'m \<Rightarrow> 'm \<Rightarrow> 'm"
  cv_calibrateCamera ::
    "Point3f list list \<Rightarrow> Point2f list list \<Rightarrow> Size \<Rightarrow> 'm \<Rightarrow> 'm \<Rightarrow> calib_flag set
       \<Rightarrow> real \<times> 'm \<times> 'm"
  cv_stereoCalibrate ::
    "Point3f list list \<Rightarrow> Point2f list \<Rightarrow> Point2f list \<Rightarrow> 'm \<Rightarrow> 'm \<Rightarrow> 'm \<Rightarrow> 'm \<Rightarrow> Size
       \<Rightarrow> calib_flag set \<Rightarrow> nat \<times> real \<Rightarrow> real \<times> 'm \<times> 'm \<times> 'm \<times> 'm"
  cv_stereoRectify ::
    "'m \<Rightarrow> 'm \<Rightarrow> 'm \<Rightarrow> 'm \<Rightarrow> Size \<Rightarrow> 'm \<Rightarrow> 'm \<Rightarrow> calib_flag set \<Rightarrow> real \<Rightarrow> Size
       \<Rightarrow> 'm \<times> 'm \<times> 'm \<times> 'm \<times> 'm"
  cv_initUndistortRectifyMap :: "'m \<Rightarrow> 'm \<Rightarrow> 'm \<Rightarrow> 'm \<Rightarrow> Size \<Rightarrow> 'm \<times> 'm"
  cv_imdecode :: "8 word list \<Rightarrow> 'm"
  cv_remap :: "'m \<Rightarrow> 'm \<Rightarrow> 'm \<Rightarrow> 'm"
  cv_cvtColorGray :: "'m \<Rightarrow> 'm"
  cv_sgbmCompute :: "'m \<Rightarrow> 'm \<Rightarrow> 'm"
  cv_reprojectImageTo3D :: "'m \<Rightarrow> 'm \<Rightarrow> bool \<Rightarrow> 'm"
  cv_bilateralFilter :: "'m \<Rightarrow> int \<Rightarrow> real \<Rightarrow> real \<Rightarrow> 'm"
  cv_compareGT :: "'m \<Rightarrow> real \<Rightarrow> 'm"
  cv_countNonZero :: "'m \<Rightarrow> int"
  cv_meanStdDev :: "'m \<Rightarrow> 'm option \<Rightarrow> Scalar \<times> Scalar"
  cv_detectAndCompute :: "SiftParams \<Rightarrow> 'm \<Rightarrow> 'k list \<times> 'm"
  cv_match :: "'m \<Rightarrow> 'm \<Rightarrow> DMatch list"
  cv_triangulatePoints :: "'m \<Rightarrow> 'm \<Rightarrow> Point2f list \<Rightarrow> Point2f list \<Rightarrow> 'm"
  cv_projectPoints :: "Point3f list \<Rightarrow> 'm \<Rightarrow> 'm \<Rightarrow> 'm \<Rightarrow> 'm \<Rightarrow> Point2f list"

text \<open>
  What the class writes to \<^verbatim>\<open>cout\<close> and \<^verbatim>\<open>cerr\<close>: one event for each message (a
  run of consecutive output statements is one event), with the values it prints.
\<close>

datatype msg =
    Initialized
  | NeedTwoCameras | CalibrationStart | InsufficientPoints | CameraCalibrated
  | StereoStart | StereoMissingPoints | StereoDone | RectificationConfigured
  | BundleStart | BundleDone
  | ProcessingFrames | SyncWarning | DecodeError | FrameDecoded | ProcessingDone
  | DisparityStart | DisparityDone | DisparityValidation
  | SiftStart | SiftDetected | GoodMatches
  | TriangulationStart | TriangulationNeedsTwoCameras | InsufficientCorrespondences
  | Triangulated | ValidationStart | MeanReprojError
  | QualityHigh | QualityMedium | QualityLow | Storing3DPoints
  | MeasurementStart | DepthStatistics | MeasurementDone

datatype 'm val = VInt int | VNat nat | VReal real | VMat 'm | VSize Size

type_synonym 'm event = "msg \<times> 'm val list"

datatype chan = Cout | Cerr

definition channel :: "msg \<Rightarrow> chan" where
  "channel m =
     (if m \<in> {NeedTwoCameras, InsufficientPoints, StereoMissingPoints, DecodeError}
      then Cerr else Cout)"

text \<open>
  The members of the class.  \<^verbatim>\<open>std::map<int, Mat>\<close> is an association list kept in
  increasing key order, the order in which the class iterates over it.  The mutex and
  the condition variable are left out: one call is one step of the model.
\<close>

record 'm state =
  cameraCount :: int
  imageSize :: Size
  cameraMatrices :: "'m list"
  distortionCoefficients :: "'m list"
  rotationMatrices :: "'m list"
  translationVectors :: "'m list"
  rectifyMaps1 :: "'m list"
  rectifyMaps2 :: "'m list"
  Q :: "'m"
  currentFrames :: "(int \<times> 'm) list"
  frameTimestamps :: "(int \<times> real) list"
  processedFrames :: "'m list"
  disparityMap :: "'m"
  depthMap :: "'m"
  siftDetector :: SiftParams
  objectPoints3D :: "Point3f list list"
  imagePointsPerCamera :: "Point2f list list"

section \<open>Vectors, maps and iteration\<close>

definition vec_at :: "'a list \<Rightarrow> int \<Rightarrow> 'a option" where
  "vec_at xs i = (if 0 \<le> i \<and> i < int (length xs) then Some (xs ! nat i) else None)"

definition vec_set :: "'a list \<Rightarrow> int \<Rightarrow> 'a \<Rightarrow> 'a list option" where
  "vec_set xs i v = (if 0 \<le> i \<and> i < int (length xs) then Some (xs[nat i := v]) else None)"

text \<open>\<^verbatim>\<open>v.resize(n)\<close> for \<open>0 \<le> n\<close>: keeps the first \<open>n\<close> elements, pads with \<open>d\<close>.\<close>

definition resize :: "nat \<Rightarrow> 'a \<Rightarrow> 'a list \<Rightarrow> 'a list" where
  "resize n d xs = take n xs @ replicate (n - length xs) d"

text \<open>\<^verbatim>\<open>m[k] = v\<close> on a \<^verbatim>\<open>std::map\<close>: insert in key order, or overwrite.\<close>

fun map_put :: "int \<Rightarrow> 'v \<Rightarrow> (int \<times> 'v) list \<Rightarrow> (int \<times> 'v) list" where
  "map_put k v [] = [(k, v)]"
| "map_put k v ((k', v') # m) =
     (if k < k' then (k, v) # (k', v') # m
      else if k = k' then (k, v) # m
      else (k', v') # map_put k v m)"

text \<open>A loop whose body may fail: the bodies run in order, the first failure ends it.\<close>

fun for_each :: "('a \<Rightarrow> 'b \<Rightarrow> 'b option) \<Rightarrow> 'a list \<Rightarrow> 'b \<Rightarrow> 'b option" where
  "for_each f [] b = Some b"
| "for_each f (x # xs) b = (case f x b of None \<Rightarrow> None | Some b' \<Rightarrow> for_each f xs b')"

section \<open>Initialisation\<close>

definition constructor :: "('m, 'k) opencv \<Rightarrow> 'm state" where
  "constructor cv =
     \<lparr> cameraCount = 0, imageSize = (0, 0),
       cameraMatrices = [], distortionCoefficients = [],
       rotationMatrices = [], translationVectors = [],
       rectifyMaps1 = [], rectifyMaps2 = [], Q = cv_Mat cv,
       currentFrames = [], frameTimestamps = [], processedFrames = [],
       disparityMap = cv_Mat cv, depthMap = cv_Mat cv,
       siftDetector = \<lparr> nfeatures = 0, nOctaveLayers = 3, contrastThreshold = 0.04,
                        edgeThreshold = 10, sigma = 1.6 \<rparr>,
       objectPoints3D = [], imagePointsPerCamera = [] \<rparr>"

text \<open>
  \<^verbatim>\<open>initialize\<close>.  A negative \<^verbatim>\<open>numCameras\<close> makes \<^verbatim>\<open>resize\<close> throw
  \<^verbatim>\<open>std::length_error\<close>, which nothing catches: the result \<open>None\<close>.
\<close>

definition initialize ::
  "('m, 'k) opencv \<Rightarrow> 'm state \<Rightarrow> int \<Rightarrow> int \<Rightarrow> int \<Rightarrow> (bool \<times> 'm state \<times> 'm event list) option"
where
  "initialize cv s width height numCameras =
     (if numCameras < 0 then None
      else
        let n = nat numCameras; d = cv_Mat cv in
        Some (True,
          s\<lparr> cameraCount := numCameras, imageSize := (width, height),
             cameraMatrices := resize n d (cameraMatrices s),
             distortionCoefficients := resize n d (distortionCoefficients s),
             rotationMatrices := resize n d (rotationMatrices s),
             translationVectors := resize n d (translationVectors s),
             rectifyMaps1 := resize n d (rectifyMaps1 s),
             rectifyMaps2 := resize n d (rectifyMaps2 s),
             processedFrames := resize n d (processedFrames s),
             imagePointsPerCamera := resize n [] (imagePointsPerCamera s),
             siftDetector := \<lparr> nfeatures = 0, nOctaveLayers = 4, contrastThreshold = 0.03,
                                 edgeThreshold = 10, sigma = 1.6 \<rparr> \<rparr>,
          [(Initialized, [VInt numCameras, VInt width, VInt height])]))"

section \<open>Calibration\<close>

text \<open>The 9 x 6 chessboard of 25 mm squares, rows outermost (both calibration functions
  build it with the same nested loop).\<close>

definition patternPoints :: "Point3f list" where
  "patternPoints =
     concat (map (\<lambda>i. map (\<lambda>j. (real j * 25, real i * 25, 0)) [0..<9]) [0..<6])"

text \<open>\<^verbatim>\<open>performStereoCalibration\<close>\<close>

definition performStereoCalibration ::
  "('m, 'k) opencv \<Rightarrow> 'm state \<Rightarrow> int \<Rightarrow> int \<Rightarrow> (bool \<times> 'm state \<times> 'm event list) option"
where
  "performStereoCalibration cv s cam1Idx cam2Idx = do {
     pts1 \<leftarrow> vec_at (imagePointsPerCamera s) cam1Idx;
     pts2 \<leftarrow> vec_at (imagePointsPerCamera s) cam2Idx;
     if pts1 = [] \<or> pts2 = [] then
       Some (False, s, [(StereoStart, [VInt cam1Idx, VInt cam2Idx]), (StereoMissingPoints, [])])
     else do {
       let numImages = min (length pts1) (length pts2);
       let objectPoints = replicate numImages patternPoints;
       K1 \<leftarrow> vec_at (cameraMatrices s) cam1Idx;
       D1 \<leftarrow> vec_at (distortionCoefficients s) cam1Idx;
       K2 \<leftarrow> vec_at (cameraMatrices s) cam2Idx;
       D2 \<leftarrow> vec_at (distortionCoefficients s) cam2Idx;
       let (rms, R, T, E, F) =
         cv_stereoCalibrate cv objectPoints (take numImages pts1) (take numImages pts2)
           K1 D1 K2 D2 (imageSize s) {CALIB_FIX_INTRINSIC} (100, 1 / 100000);
       rots \<leftarrow> vec_set (rotationMatrices s) cam2Idx R;
       trans \<leftarrow> vec_set (translationVectors s) cam2Idx T;
       let (R1, R2, P1, P2, Q') =
         cv_stereoRectify cv K1 D1 K2 D2 (imageSize s) R T {CALIB_ZERO_DISPARITY} 1 (imageSize s);
       let (m1a, m2a) = cv_initUndistortRectifyMap cv K1 D1 R1 P1 (imageSize s);
       maps1a \<leftarrow> vec_set (rectifyMaps1 s) cam1Idx m1a;
       maps2a \<leftarrow> vec_set (rectifyMaps2 s) cam1Idx m2a;
       let (m1b, m2b) = cv_initUndistortRectifyMap cv K2 D2 R2 P2 (imageSize s);
       maps1b \<leftarrow> vec_set maps1a cam2Idx m1b;
       maps2b \<leftarrow> vec_set maps2a cam2Idx m2b;
       Some (True,
         s\<lparr> rotationMatrices := rots, translationVectors := trans, Q := Q',
            rectifyMaps1 := maps1b, rectifyMaps2 := maps2b \<rparr>,
         [(StereoStart, [VInt cam1Idx, VInt cam2Idx]),
          (StereoDone, [VReal rms, VMat R, VMat T]),
          (RectificationConfigured, [])])
     }
   }"

text \<open>
  The bundle-adjustment residual: \<^verbatim>\<open>calculateReprojectedPoint\<close> returns the origin for
  every camera, point and parameter vector.
\<close>

definition calculateReprojectedPoint :: "int \<Rightarrow> nat \<Rightarrow> real list \<Rightarrow> Point2f" where
  "calculateReprojectedPoint cameraIdx pointIdx params = (0, 0)"

definition calculateReprojectionResiduals :: "'m state \<Rightarrow> real list \<Rightarrow> real list option" where
  "calculateReprojectionResiduals s params =
     for_each
       (\<lambda>cam residuals. do {
          pts \<leftarrow> vec_at (imagePointsPerCamera s) cam;
          Some (residuals @
            concat (map (\<lambda>pointIdx.
                      let observed = pts ! pointIdx;
                          reprojected = calculateReprojectedPoint cam pointIdx params
                      in [fst observed - fst reprojected, snd observed - snd reprojected])
                    [0..<length pts]))
        })
       [0..cameraCount s - 1] []"

text \<open>
  The lambda \<^verbatim>\<open>residualFunction\<close> of \<^verbatim>\<open>performBundleAdjustment\<close>: for each camera it
  reads 4 + 5 + 3 * 2 = 15 entries of \<^verbatim>\<open>params\<close> into locals it never uses (\<open>paramIdx\<close>
  is the next entry to read), then calls \<^verbatim>\<open>calculateReprojectionResiduals\<close>.
\<close>

definition residualFunction :: "'m state \<Rightarrow> real list \<Rightarrow> real list option" where
  "residualFunction s params = do {
     paramIdx \<leftarrow> for_each
       (\<lambda>cam paramIdx.
          if paramIdx + 15 \<le> length params then Some (paramIdx + 15) else None)
       [0..cameraCount s - 1] (0::nat);
     calculateReprojectionResiduals s params
   }"

text \<open>
  \<^verbatim>\<open>performBundleAdjustment\<close>: it counts the image points into the local
  \<^verbatim>\<open>totalPoints\<close>, defines \<^verbatim>\<open>residualFunction\<close> and returns; the lambda is never
  called and no member is written.
\<close>

definition performBundleAdjustment :: "'m state \<Rightarrow> ('m state \<times> 'm event list) option" where
  "performBundleAdjustment s = do {
     totalPoints \<leftarrow> for_each
       (\<lambda>cam totalPoints. do {
          pts \<leftarrow> vec_at (imagePointsPerCamera s) cam;
          Some (totalPoints + int (length pts))
        })
       [0..cameraCount s - 1] (0::int);
     Some (s, [(BundleStart, []), (BundleDone, [])])
   }"

text \<open>The body of the per-camera loop of \<^verbatim>\<open>performAutomaticCalibration\<close>.\<close>

definition calibrateOne ::
  "('m, 'k) opencv \<Rightarrow> int \<Rightarrow> 'm state \<times> 'm event list \<Rightarrow> ('m state \<times> 'm event list) option"
where
  "calibrateOne cv camIdx = (\<lambda>(s, out). do {
     pts \<leftarrow> vec_at (imagePointsPerCamera s) camIdx;
     if length pts < 10 then Some (s, out @ [(InsufficientPoints, [VInt camIdx])])
     else do {
       let objectPoints = replicate (length pts) patternPoints;
       K \<leftarrow> vec_at (cameraMatrices s) camIdx;
       D \<leftarrow> vec_at (distortionCoefficients s) camIdx;
       let (rms, K', D') =
         cv_calibrateCamera cv objectPoints [pts] (imageSize s) K D
           {CALIB_FIX_PRINCIPAL_POINT, CALIB_FIX_ASPECT_RATIO, CALIB_ZERO_TANGENT_DIST};
       Ks \<leftarrow> vec_set (cameraMatrices s) camIdx K';
       Ds \<leftarrow> vec_set (distortionCoefficients s) camIdx D';
       Some (s\<lparr> cameraMatrices := Ks, distortionCoefficients := Ds \<rparr>,
             out @ [(CameraCalibrated, [VInt camIdx, VReal rms, VMat K', VMat D'])])
     }
   })"

text \<open>\<^verbatim>\<open>performAutomaticCalibration\<close>\<close>

definition performAutomaticCalibration ::
  "('m, 'k) opencv \<Rightarrow> 'm state \<Rightarrow> (bool \<times> 'm state \<times> 'm event list) option"
where
  "performAutomaticCalibration cv s =
     (if cameraCount s < 2 then Some (False, s, [(NeedTwoCameras, [])])
      else do {
        (s1, out1) \<leftarrow> for_each (calibrateOne cv) [0..cameraCount s - 1]
                        (s, [(CalibrationStart, [])]);
        (s2, out2) \<leftarrow>
          (if cameraCount s1 \<ge> 2 then do {
             (ok, s', out') \<leftarrow> performStereoCalibration cv s1 0 1;
             Some (s', out')
           } else Some (s1, []));
        (s3, out3) \<leftarrow> performBundleAdjustment s2;
        Some (True, s3, out1 @ out2 @ out3)
      })"

section \<open>Processing a batch of frames\<close>

text \<open>
  \<^verbatim>\<open>std::minmax_element\<close>: the least and the greatest element; on an empty range both
  iterators are \<^verbatim>\<open>end()\<close>, which must not be dereferenced.
\<close>

definition minmax_element :: "real list \<Rightarrow> (real \<times> real) option" where
  "minmax_element xs =
     (case xs of [] \<Rightarrow> None | x # rest \<Rightarrow> Some (fold min rest x, fold max rest x))"

text \<open>The synchronisation check of \<^verbatim>\<open>processMultiFrame\<close> (timestamps in seconds): the
  value of \<^verbatim>\<open>maxTimeDiff\<close> and what is printed.\<close>

definition checkSynchronization :: "real list \<Rightarrow> (real \<times> 'm event list) option" where
  "checkSynchronization timestamps =
     (if length timestamps > 1 then do {
        (tmin, tmax) \<leftarrow> minmax_element timestamps;
        let maxTimeDiff = tmax - tmin;
        Some (maxTimeDiff,
              if maxTimeDiff > 0.016667 then [(SyncWarning, [VReal (maxTimeDiff * 1000)])]
              else [])
      } else Some (0, []))"

text \<open>The body of the decoding loop of \<^verbatim>\<open>processMultiFrame\<close>, for the index \<open>i\<close>
  below \<^verbatim>\<open>frameDataList.size()\<close> (\<^verbatim>\<open>imdecode\<close> is called with \<^verbatim>\<open>IMREAD_COLOR\<close>).\<close>

definition decodeOne ::
  "('m, 'k) opencv \<Rightarrow> 8 word list list \<Rightarrow> real list \<Rightarrow> int list \<Rightarrow> nat
     \<Rightarrow> 'm state \<times> 'm event list \<Rightarrow> ('m state \<times> 'm event list) option"
where
  "decodeOne cv frameDataList timestamps cameraIds i = (\<lambda>(s, out).
     let frame = cv_imdecode cv (frameDataList ! i) in
     if cv_empty cv frame then do {
       cam \<leftarrow> vec_at cameraIds (int i);
       Some (s, out @ [(DecodeError, [VInt cam])])
     } else do {
       cam \<leftarrow> vec_at cameraIds (int i);
       t \<leftarrow> vec_at timestamps (int i);
       Some (s\<lparr> currentFrames := map_put cam frame (currentFrames s),
                frameTimestamps := map_put cam t (frameTimestamps s) \<rparr>,
             out @ [(FrameDecoded, [VInt cam, VSize (cv_size cv frame), VReal t])])
     })"

text \<open>
  The body of the loop of \<^verbatim>\<open>rectifyFrames\<close>.  The test
  \<^verbatim>\<open>camIdx < rectifyMaps1.size()\<close> compares an \<^verbatim>\<open>int\<close> with a \<^verbatim>\<open>size_t\<close>: a negative
  \<^verbatim>\<open>camIdx\<close> is converted to a value above every vector size, so the test fails.
\<close>

definition rectifyOne :: "('m, 'k) opencv \<Rightarrow> int \<times> 'm \<Rightarrow> 'm state \<Rightarrow> 'm state option" where
  "rectifyOne cv = (\<lambda>(camIdx, frame) s.
     if 0 \<le> camIdx \<and> camIdx < int (length (rectifyMaps1 s))
        \<and> \<not> cv_empty cv (rectifyMaps1 s ! nat camIdx)
     then do {
       map2 \<leftarrow> vec_at (rectifyMaps2 s) camIdx;
       let rectified = cv_remap cv frame (rectifyMaps1 s ! nat camIdx) map2;
       pf \<leftarrow> vec_set (processedFrames s) camIdx rectified;
       Some (s\<lparr> processedFrames := pf \<rparr>)
     } else do {
       pf \<leftarrow> vec_set (processedFrames s) camIdx frame;
       Some (s\<lparr> processedFrames := pf \<rparr>)
     })"

definition rectifyFrames :: "('m, 'k) opencv \<Rightarrow> 'm state \<Rightarrow> 'm state option" where
  "rectifyFrames cv s = for_each (rectifyOne cv) (currentFrames s) s"

definition validateDisparityMap :: "('m, 'k) opencv \<Rightarrow> 'm state \<Rightarrow> 'm event list" where
  "validateDisparityMap cv s =
     (if cv_empty cv (disparityMap s) then []
      else
        let validPixels = cv_compareGT cv (disparityMap s) 0;
            validCount = cv_countNonZero cv validPixels;
            total = cv_rows cv (disparityMap s) * cv_cols cv (disparityMap s);
            validRatio = real_of_int validCount / real_of_int total
        in [(DisparityValidation, [VInt validCount, VInt total, VReal (validRatio * 100)])])"

text \<open>\<^verbatim>\<open>generateStereoDepthMap\<close>: the two frames with the least camera ids, rectified
  with the maps of cameras 0 and 1 (the SGBM parameters are constants of the source).\<close>

definition generateStereoDepthMap ::
  "('m, 'k) opencv \<Rightarrow> 'm state \<Rightarrow> ('m state \<times> 'm event list) option"
where
  "generateStereoDepthMap cv s =
     (case currentFrames s of
        (idl, leftFrame) # (idr, rightFrame) # rest \<Rightarrow> do {
          m1l \<leftarrow> vec_at (rectifyMaps1 s) 0;
          m2l \<leftarrow> vec_at (rectifyMaps2 s) 0;
          let leftRectified = cv_remap cv leftFrame m1l m2l;
          m1r \<leftarrow> vec_at (rectifyMaps1 s) 1;
          m2r \<leftarrow> vec_at (rectifyMaps2 s) 1;
          let rightRectified = cv_remap cv rightFrame m1r m2r;
          let leftGray = cv_cvtColorGray cv leftRectified;
          let rightGray = cv_cvtColorGray cv rightRectified;
          let disp = cv_sgbmCompute cv leftGray rightGray;
          let depth = cv_reprojectImageTo3D cv disp (Q s) True;
          let depthFiltered = cv_bilateralFilter cv depth 9 75 75;
          let s' = s\<lparr> disparityMap := disp, depthMap := depthFiltered \<rparr>;
          Some (s', [(DisparityStart, []),
                     (DisparityDone, [VInt (cv_rows cv disp), VInt (cv_cols cv disp)])]
                    @ validateDisparityMap cv s')
        }
      | _ \<Rightarrow> Some (s, []))"

text \<open>The three helpers whose bodies are empty but for comments or one message.\<close>

definition storeMatchesForTriangulation ::
  "'k list \<Rightarrow> 'k list \<Rightarrow> DMatch list \<Rightarrow> 'm state \<Rightarrow> 'm state" where
  "storeMatchesForTriangulation kp1 kp2 matches s = s"

definition getCorrespondingPoints ::
  "'m state \<Rightarrow> Point2f list \<Rightarrow> Point2f list \<Rightarrow> Point2f list \<times> Point2f list" where
  "getCorrespondingPoints s points1 points2 = (points1, points2)"

definition store3DPoints :: "Point3f list \<Rightarrow> 'm event list" where
  "store3DPoints points3D = [(Storing3DPoints, [VNat (length points3D)])]"

text \<open>\<^verbatim>\<open>detectAndMatchFeatures\<close> (the matcher is the brute-force L2 matcher with
  cross-check the constructor creates).\<close>

definition detectAndMatchFeatures ::
  "('m, 'k) opencv \<Rightarrow> 'm state \<Rightarrow> 'm state \<times> 'm event list"
where
  "detectAndMatchFeatures cv s =
     (let detected = map (\<lambda>(cam, frame).
                       (cam, cv_detectAndCompute cv (siftDetector s) (cv_cvtColorGray cv frame)))
                     (currentFrames s);
          allKeypoints = map (\<lambda>(cam, kps, desc). kps) detected;
          allDescriptors = map (\<lambda>(cam, kps, desc). desc) detected;
          out = (SiftStart, []) #
                map (\<lambda>(cam, kps, desc). (SiftDetected, [VInt cam, VNat (length kps)])) detected
      in if length allDescriptors \<ge> 2 \<and> \<not> cv_empty cv (allDescriptors ! 0)
            \<and> \<not> cv_empty cv (allDescriptors ! 1)
         then
           let matches = cv_match cv (allDescriptors ! 0) (allDescriptors ! 1);
               goodMatches = filter (\<lambda>m. distance m < 0.8 * 100) matches
           in (storeMatchesForTriangulation (allKeypoints ! 0) (allKeypoints ! 1) goodMatches s,
               out @ [(GoodMatches, [VNat (length goodMatches)])])
         else (s, out))"

text \<open>\<^verbatim>\<open>cv::norm\<close> of the difference of two \<^verbatim>\<open>Point2f\<close>: the Euclidean distance.\<close>

definition dist2f :: "Point2f \<Rightarrow> Point2f \<Rightarrow> real" where
  "dist2f p q = sqrt ((fst p - fst q)\<^sup>2 + (snd p - snd q)\<^sup>2)"

text \<open>The three-way classification that ends \<^verbatim>\<open>validateTriangulation\<close>.\<close>

definition qualityOf :: "real \<Rightarrow> msg" where
  "qualityOf meanReprojError =
     (if meanReprojError < 1.0 then QualityHigh
      else if meanReprojError < 2.0 then QualityMedium
      else QualityLow)"

definition validateTriangulation ::
  "('m, 'k) opencv \<Rightarrow> 'm state \<Rightarrow> Point3f list \<Rightarrow> Point2f list \<Rightarrow> Point2f list
     \<Rightarrow> 'm event list option"
where
  "validateTriangulation cv s points3D points1 points2 = do {
     let rvec1 = cv_zeros cv 3 1;
     let tvec1 = cv_zeros cv 3 1;
     K0 \<leftarrow> vec_at (cameraMatrices s) 0;
     D0 \<leftarrow> vec_at (distortionCoefficients s) 0;
     let reprojected1 = cv_projectPoints cv points3D rvec1 tvec1 K0 D0;
     R1 \<leftarrow> vec_at (rotationMatrices s) 1;
     T1 \<leftarrow> vec_at (translationVectors s) 1;
     K1 \<leftarrow> vec_at (cameraMatrices s) 1;
     D1 \<leftarrow> vec_at (distortionCoefficients s) 1;
     let reprojected2 = cv_projectPoints cv points3D R1 T1 K1 D1;
     totalError \<leftarrow> for_each
       (\<lambda>i totalError. do {
          r1 \<leftarrow> vec_at reprojected1 (int i);
          p2 \<leftarrow> vec_at points2 (int i);
          r2 \<leftarrow> vec_at reprojected2 (int i);
          let error1 = dist2f (points1 ! i) r1;
          let error2 = dist2f p2 r2;
          Some (totalError + (error1 + error2))
        })
       [0..<length points1] (0::real);
     let meanReprojError = totalError / (2 * real (length points1));
     Some [(ValidationStart, []), (MeanReprojError, [VReal meanReprojError]),
           (qualityOf meanReprojError, [])]
   }"

text \<open>\<^verbatim>\<open>perform3DTriangulation\<close> from the projection matrices on: what it does once it
  has at least 8 correspondences.\<close>

definition triangulateCorrespondences ::
  "('m, 'k) opencv \<Rightarrow> 'm state \<Rightarrow> Point2f list \<Rightarrow> Point2f list \<Rightarrow> 'm event list option"
where
  "triangulateCorrespondences cv s points1 points2 = do {
     K0 \<leftarrow> vec_at (cameraMatrices s) 0;
     let P1 = cv_hconcat cv K0 (cv_zeros cv 3 1);
     R1 \<leftarrow> vec_at (rotationMatrices s) 1;
     T1 \<leftarrow> vec_at (translationVectors s) 1;
     let RT = cv_hconcat cv R1 T1;
     K1 \<leftarrow> vec_at (cameraMatrices s) 1;
     let P2 = cv_mul cv K1 RT;
     let points4D = cv_triangulatePoints cv P1 P2 points1 points2;
     let points3D = map (\<lambda>i. (cv_at cv points4D 0 i / cv_at cv points4D 3 i,
                               cv_at cv points4D 1 i / cv_at cv points4D 3 i,
                               cv_at cv points4D 2 i / cv_at cv points4D 3 i))
                        [0..cv_cols cv points4D - 1];
     out \<leftarrow> validateTriangulation cv s points3D points1 points2;
     Some ([(Triangulated, [VNat (length points3D)])] @ out @ store3DPoints points3D)
   }"

definition perform3DTriangulation :: "('m, 'k) opencv \<Rightarrow> 'm state \<Rightarrow> 'm event list option" where
  "perform3DTriangulation cv s =
     (if length (currentFrames s) < 2
      then Some [(TriangulationStart, []), (TriangulationNeedsTwoCameras, [])]
      else
        let (points1, points2) = getCorrespondingPoints s [] [] in
        if length points1 < 8
        then Some [(TriangulationStart, []), (InsufficientCorrespondences, [])]
        else do {
          out \<leftarrow> triangulateCorrespondences cv s points1 points2;
          Some ((TriangulationStart, []) # out)
        })"

text \<open>\<^verbatim>\<open>calculatePreciseMeasurements\<close>: \<^verbatim>\<open>meanStdDev\<close> is called without a mask, and
  component 0 of each result is printed.\<close>

definition calculatePreciseMeasurements :: "('m, 'k) opencv \<Rightarrow> 'm state \<Rightarrow> 'm event list" where
  "calculatePreciseMeasurements cv s =
     [(MeasurementStart, [])] @
     (if \<not> cv_empty cv (depthMap s) then
        let (meanDepth, stdDepth) = cv_meanStdDev cv (depthMap s) None
        in [(DepthStatistics,
             [VReal (fst meanDepth), VReal (fst stdDepth), VReal (fst stdDepth * 1.96)])]
      else []) @
     [(MeasurementDone, [])]"

text \<open>\<^verbatim>\<open>processMultiFrame\<close>\<close>

definition processMultiFrame ::
  "('m, 'k) opencv \<Rightarrow> 'm state \<Rightarrow> 8 word list list \<Rightarrow> real list \<Rightarrow> int list
     \<Rightarrow> ('m state \<times> 'm event list) option"
where
  "processMultiFrame cv s frameDataList timestamps cameraIds = do {
     (maxTimeDiff, out1) \<leftarrow> checkSynchronization timestamps;
     let s1 = s\<lparr> currentFrames := [], frameTimestamps := [] \<rparr>;
     (s2, out2) \<leftarrow> for_each (decodeOne cv frameDataList timestamps cameraIds)
                     [0..<length frameDataList] (s1, []);
     s3 \<leftarrow> rectifyFrames cv s2;
     (s4, out4) \<leftarrow> (if length (currentFrames s3) \<ge> 2 then generateStereoDepthMap cv s3
                    else Some (s3, []));
     let (s5, out5) = detectAndMatchFeatures cv s4;
     out6 \<leftarrow> perform3DTriangulation cv s5;
     let out7 = calculatePreciseMeasurements cv s5;
     Some (s5,
       [(ProcessingFrames, [VNat (length frameDataList)])] @ out1 @ out2 @ out4 @ out5 @ out6
       @ out7
       @ [(ProcessingDone, [VReal (maxTimeDiff * 1000), VNat (length (currentFrames s5))])])
   }"

section \<open>Well-formed states and batches\<close>

text \<open>
  The states in which every per-camera vector has \<^verbatim>\<open>cameraCount\<close> entries: the
  constructor and \<^verbatim>\<open>initialize\<close> produce such states and no method changes a length.
\<close>

definition wf_state :: "'m state \<Rightarrow> bool" where
  "wf_state s \<longleftrightarrow>
     0 \<le> cameraCount s
     \<and> length (cameraMatrices s) = nat (cameraCount s)
     \<and> length (distortionCoefficients s) = nat (cameraCount s)
     \<and> length (rotationMatrices s) = nat (cameraCount s)
     \<and> length (translationVectors s) = nat (cameraCount s)
     \<and> length (rectifyMaps1 s) = nat (cameraCount s)
     \<and> length (rectifyMaps2 s) = nat (cameraCount s)
     \<and> length (processedFrames s) = nat (cameraCount s)
     \<and> length (imagePointsPerCamera s) = nat (cameraCount s)"


section \<open>The calibration loop, camera by camera\<close>




section \<open>The frame pipeline, frame by frame\<close>





definition rectified :: "('m, 'k) opencv \<Rightarrow> 'm state \<Rightarrow> int \<Rightarrow> 'm \<Rightarrow> 'm" where
  "rectified cv s camIdx frame =
     (if \<not> cv_empty cv (rectifyMaps1 s ! nat camIdx)
      then cv_remap cv frame (rectifyMaps1 s ! nat camIdx) (rectifyMaps2 s ! nat camIdx)
      else frame)"


definition maxTimeDiff :: "real list \<Rightarrow> real" where
  "maxTimeDiff T = (if 1 < length T then Max (set T) - Min (set T) else 0)"

definition syncEvents :: "real list \<Rightarrow> 'm event list" where
  "syncEvents T =
     (if maxTimeDiff T > 0.016667 then [(SyncWarning, [VReal (maxTimeDiff T * 1000)])] else [])"

section \<open>A stand-in for the library, and example rigs\<close>

text \<open>
  Concrete inputs need a concrete library.  \<open>cvT\<close> is a stand-in with matrices as lists
  of rows.  It keeps to what OpenCV documents where an example depends on it:
  \<^item> \<open>cv_calibrateCamera\<close> returns made-up estimates, but pins the principal point to the
    image centre under \<^verbatim>\<open>CALIB_FIX_PRINCIPAL_POINT\<close>, equates the focal lengths under
    \<^verbatim>\<open>CALIB_FIX_ASPECT_RATIO\<close> and returns zero tangential coefficients under
    \<^verbatim>\<open>CALIB_ZERO_TANGENT_DIST\<close>;
  \<^item> \<open>cv_imdecode\<close> fails (returns the empty matrix) on an empty buffer only;
  \<^item> \<open>cv_reprojectImageTo3D\<close> gives a pixel without disparity the depth 10000;
  \<^item> \<open>cv_meanStdDev\<close> is the mean and the standard deviation of the elements the mask
    selects, of all elements without a mask.
\<close>

type_synonym TMat = "real list list"

definition testCalibrateCamera ::
  "Point3f list list \<Rightarrow> Point2f list list \<Rightarrow> Size \<Rightarrow> TMat \<Rightarrow> TMat \<Rightarrow> calib_flag set
     \<Rightarrow> real \<times> TMat \<times> TMat" where
  "testCalibrateCamera objectPoints imagePoints sz K D flags =
     (1 / 2,
      [[800, 0, (if CALIB_FIX_PRINCIPAL_POINT \<in> flags then real_of_int (fst sz) / 2 else 330)],
       [0, (if CALIB_FIX_ASPECT_RATIO \<in> flags then 800 else 810),
        (if CALIB_FIX_PRINCIPAL_POINT \<in> flags then real_of_int (snd sz) / 2 else 250)],
       [0, 0, 1]],
      [[1 / 10, 1 / 100,
        (if CALIB_ZERO_TANGENT_DIST \<in> flags then 0 else 2 / 1000),
        (if CALIB_ZERO_TANGENT_DIST \<in> flags then 0 else 3 / 1000),
        1 / 1000]])"

definition testMeanStdDev :: "TMat \<Rightarrow> TMat option \<Rightarrow> Scalar \<times> Scalar" where
  "testMeanStdDev m msk =
     (let xs = (case msk of None \<Rightarrow> concat m
                | Some k \<Rightarrow> map fst (filter (\<lambda>(x, b). b \<noteq> 0) (zip (concat m) (concat k))));
          n = real (length xs);
          mean = sum_list xs / n;
          var = sum_list (map (\<lambda>x. (x - mean)\<^sup>2) xs) / n
      in ((mean, 0, 0, 0), (sqrt var, 0, 0, 0)))"

definition cvT :: "(TMat, nat) opencv" where
  "cvT = \<lparr>
     cv_Mat = [],
     cv_empty = (\<lambda>m. m = []),
     cv_rows = (\<lambda>m. int (length m)),
     cv_cols = (\<lambda>m. case m of [] \<Rightarrow> 0 | r # rs \<Rightarrow> int (length r)),
     cv_size = (\<lambda>m. (case m of [] \<Rightarrow> 0 | r # rs \<Rightarrow> int (length r), int (length m))),
     cv_at = (\<lambda>m r c. m ! nat r ! nat c),
     cv_zeros = (\<lambda>r c. replicate (nat r) (replicate (nat c) 0)),
     cv_hconcat = (\<lambda>a b. map (\<lambda>(x, y). x @ y) (zip a b)),
     cv_mul = (\<lambda>a b. map (\<lambda>row. map (\<lambda>col. sum_list (map (\<lambda>(x, y). x * y) (zip row col)))
                                    (transpose b)) a),
     cv_calibrateCamera = testCalibrateCamera,
     cv_stereoCalibrate = (\<lambda>objectPoints pts1 pts2 K1 D1 K2 D2 sz flags crit.
        (1 / 4, [[1, 0, 0], [0, 1, 0], [0, 0, 1]], [[-60], [0], [0]],
         [[0, 0, 0], [0, 0, 60], [0, -60, 0]], [[0, 0, 0], [0, 0, 1], [0, -1, 0]])),
     cv_stereoRectify = (\<lambda>K1 D1 K2 D2 sz R T flags alpha newSize.
        ([[1, 0, 0], [0, 1, 0], [0, 0, 1]], [[1, 0, 0], [0, 1, 0], [0, 0, 1]],
         K1, K2, [[1, 0, 0, 0], [0, 1, 0, 0], [0, 0, 0, 800], [0, 0, 1 / 60, 0]])),
     cv_initUndistortRectifyMap = (\<lambda>K D R P sz. ([[1]], [[1]])),
     cv_imdecode = (\<lambda>bytes. if bytes = [] then [] else [map (\<lambda>b. real (unat b)) bytes]),
     cv_remap = (\<lambda>src map1 map2. src),
     cv_cvtColorGray = (\<lambda>src. src),
     cv_sgbmCompute = (\<lambda>left right.
        map (\<lambda>(l, r). map (\<lambda>(x, y). x - y) (zip l r)) (zip left right)),
     cv_reprojectImageTo3D = (\<lambda>disp Q handleMissing.
        map (map (\<lambda>d. if d \<le> 0 then 10000 else 48000 / d)) disp),
     cv_bilateralFilter = (\<lambda>src d sigmaColor sigmaSpace. src),
     cv_compareGT = (\<lambda>m t. map (map (\<lambda>x. if x > t then 255 else 0)) m),
     cv_countNonZero = (\<lambda>m. int (length (filter (\<lambda>x. x \<noteq> 0) (concat m)))),
     cv_meanStdDev = testMeanStdDev,
     cv_detectAndCompute = (\<lambda>params img. ([], [])),
     cv_match = (\<lambda>d1 d2. []),
     cv_triangulatePoints = (\<lambda>P1 P2 pts1 pts2.
        [map fst pts1, map snd pts1, map (\<lambda>p. 1) pts1, map (\<lambda>p. 1) pts1]),
     cv_projectPoints = (\<lambda>pts rvec tvec K D. map (\<lambda>(x, y, z). (x / z, y / z)) pts)
   \<rparr>"

text \<open>
  What \<^verbatim>\<open>cv::calibrateCamera\<close> requires of its two point arguments (OpenCV's
  documentation of the function): as many image views as object views, at least one, and
  in each view as many image points as object points.  The library raises an exception
  otherwise.  A function of the record cannot raise; \<open>strictCalibrateCamera\<close> marks the
  refusal by the error \<open>-1\<close> and returns the two matrices as it was given them.
  \<open>cvStrict\<close> is the stand-in with this guard in front of its calibration.
\<close>

definition calibrateCameraAccepts :: "Point3f list list \<Rightarrow> Point2f list list \<Rightarrow> bool" where
  "calibrateCameraAccepts objectPoints imagePoints \<longleftrightarrow>
     objectPoints \<noteq> []
     \<and> length objectPoints = length imagePoints
     \<and> list_all (\<lambda>(object, image). length object = length image) (zip objectPoints imagePoints)"

definition strictCalibrateCamera ::
  "(Point3f list list \<Rightarrow> Point2f list list \<Rightarrow> Size \<Rightarrow> 'm \<Rightarrow> 'm \<Rightarrow> calib_flag set
      \<Rightarrow> real \<times> 'm \<times> 'm)
   \<Rightarrow> Point3f list list \<Rightarrow> Point2f list list \<Rightarrow> Size \<Rightarrow> 'm \<Rightarrow> 'm \<Rightarrow> calib_flag set
      \<Rightarrow> real \<times> 'm \<times> 'm" where
  "strictCalibrateCamera f objectPoints imagePoints sz K D flags =
     (if calibrateCameraAccepts objectPoints imagePoints
      then f objectPoints imagePoints sz K D flags
      else (-1, K, D))"

definition cvStrict :: "(TMat, nat) opencv" where
  "cvStrict = cvT\<lparr> cv_calibrateCamera := strictCalibrateCamera testCalibrateCamera \<rparr>"

text \<open>The rig that \<^verbatim>\<open>initialize(640, 480, 2)\<close> leaves behind: two cameras, no image
  points, nothing calibrated.\<close>

definition rig :: "TMat state" where
  "rig = \<lparr> cameraCount = 2, imageSize = (640, 480),
       cameraMatrices = [[], []], distortionCoefficients = [[], []],
       rotationMatrices = [[], []], translationVectors = [[], []],
       rectifyMaps1 = [[], []], rectifyMaps2 = [[], []], Q = [],
       currentFrames = [], frameTimestamps = [], processedFrames = [[], []],
       disparityMap = [], depthMap = [],
       siftDetector = \<lparr> nfeatures = 0, nOctaveLayers = 4, contrastThreshold = 0.03,
                        edgeThreshold = 10, sigma = 1.6 \<rparr>,
       objectPoints3D = [], imagePointsPerCamera = [[], []] \<rparr>"

definition tenPoints :: "Point2f list" where
  "tenPoints = map (\<lambda>i. (real i * 10, real i * 5)) [0..<10]"

text \<open>Camera 0 has ten image points, camera 1 none.\<close>

definition oneSidedRig :: "TMat state" where
  "oneSidedRig = rig\<lparr> imagePointsPerCamera := [tenPoints, []] \<rparr>"

text \<open>Both cameras have ten image points.\<close>

definition sampledRig :: "TMat state" where
  "sampledRig = rig\<lparr> imagePointsPerCamera := [tenPoints, tenPoints] \<rparr>"


text \<open>A depth map of two pixels, the second without disparity.\<close>

definition depthRig :: "TMat state" where
  "depthRig = rig\<lparr> disparityMap := [[48, 0]], depthMap := [[1000, 10000]] \<rparr>"

text \<open>A calibrated pair, and eight correspondences 6 pixels apart.\<close>

definition calibratedRig :: "TMat state" where
  "calibratedRig = rig\<lparr>
       cameraMatrices := [[[800, 0, 320], [0, 800, 240], [0, 0, 1]],
                          [[800, 0, 320], [0, 800, 240], [0, 0, 1]]],
       distortionCoefficients := [[[0, 0, 0, 0, 0]], [[0, 0, 0, 0, 0]]],
       rotationMatrices := [[], [[1, 0, 0], [0, 1, 0], [0, 0, 1]]],
       translationVectors := [[], [[-60], [0], [0]]] \<rparr>"

definition eightLeft :: "Point2f list" where
  "eightLeft = map (\<lambda>i. (real i * 10, 20)) [0..<8]"

definition eightRight :: "Point2f list" where
  "eightRight = map (\<lambda>i. (real i * 10 + 6, 20)) [0..<8]"




section \<open>Basic facts\<close>

lemma vec_at_Some: "0 \<le> i \<Longrightarrow> i < int (length xs) \<Longrightarrow> vec_at xs i = Some (xs ! nat i)"
  by (simp add: vec_at_def)

lemma vec_set_Some: "0 \<le> i \<Longrightarrow> i < int (length xs) \<Longrightarrow> vec_set xs i v = Some (xs[nat i := v])"
  by (simp add: vec_set_def)

lemma for_each_append:
  "for_each f (xs @ ys) b = (case for_each f xs b of None \<Rightarrow> None | Some b' \<Rightarrow> for_each f ys b')"
  by (induction xs arbitrary: b) (auto split: option.splits)

lemma sqrt_36: "sqrt 36 = 6"
  by (rule real_sqrt_unique) simp_all

lemma sqrt_20250000: "sqrt 20250000 = 4500"
  by (rule real_sqrt_unique) simp_all

lemma upto_0_7: "[0..7] = [0, 1, 2, 3, 4, 5, 6, 7::int]"
  by (simp add: upto.simps)

lemma upt_0_8: "[0..<8] = [0, 1, 2, 3, 4, 5, 6, 7::nat]"
  by (simp add: upt_rec)

text \<open>\<^verbatim>\<open>initialize\<close> on a fresh object gives the example rig, and a well-formed state
  whenever it returns.\<close>

lemma rig_initialized:
  "initialize cvT (constructor cvT) 640 480 2 =
     Some (True, rig, [(Initialized, [VInt 2, VInt 640, VInt 480])])"
  by (simp add: initialize_def constructor_def rig_def cvT_def resize_def numeral_2_eq_2)

lemma initialize_wf:
  assumes "initialize cv s width height numCameras = Some (ok, s', out)"
  shows "wf_state s'"
  using assms
  by (auto simp: initialize_def wf_state_def resize_def Let_def split: if_splits)


section \<open>Bundle adjustment and stereo calibration\<close>




section \<open>The per-camera loop\<close>











section \<open>Calibration: the claims\<close>



text \<open>The call the loop makes for a camera with N image points, N at least 10, is one the
  library refuses: N object views against one image view.\<close>

lemma views_never_match:
  assumes "10 \<le> length pts"
  shows "\<not> calibrateCameraAccepts (replicate (length pts) patternPoints) [pts]"
  using assms by (simp add: calibrateCameraAccepts_def)

text \<open>
  C5 (the code misses what it attempts).  The loop of \<^verbatim>\<open>performAutomaticCalibration\<close>
  tests the count of each camera and skips a camera with fewer than 10 image points with
  the error message for that camera, as the claim has it.  But for a camera with 10 points
  or more it hands \<^verbatim>\<open>calibrateCamera\<close> one object view for each image point (line 134)
  against a single image view (line 139), which the library refuses; nothing catches the
  refusal.  On the rig whose camera 0 has ten points and whose camera 1 has none, the call
  for camera 0 is not acceptable, and a library that keeps to its requirement leaves
  camera 0 as it was, not calibrated: both its matrices are still empty after the run.
  (In the code the refusal is an exception that ends the run there, so that camera 1 is
  never reached either; the model can only mark it.)
\<close>

theorem calibration_call_refused:
  "calibrateCameraAccepts (replicate (length tenPoints) patternPoints) [tenPoints] = False
   \<and> performAutomaticCalibration cvStrict oneSidedRig =
       Some (True, oneSidedRig,
         [(CalibrationStart, []),
          (CameraCalibrated, [VInt 0, VReal (-1), VMat [], VMat []]),
          (InsufficientPoints, [VInt 1]),
          (StereoStart, [VInt 0, VInt 1]), (StereoMissingPoints, []),
          (BundleStart, []), (BundleDone, [])])"
  by (simp add: performAutomaticCalibration_def calibrateOne_def performStereoCalibration_def
      performBundleAdjustment_def vec_at_def vec_set_def oneSidedRig_def rig_def cvStrict_def
      cvT_def strictCalibrateCamera_def calibrateCameraAccepts_def tenPoints_def upto.simps)









text \<open>
  C1 (the code does not do what the claim and the comments of the function say).  On the
  rig with ten image points per camera and no camera calibrated, \<^verbatim>\<open>performBundleAdjustment\<close>
  prints its two messages and returns the state it was given: no camera profile and no
  pose is changed, so nothing is minimised.  The residual function it defines (and never
  calls) returns the observed coordinates themselves whatever the parameters are, here
  for the all-zero and the all-one parameter vector.
\<close>

theorem bundle_adjustment_changes_nothing:
  "performBundleAdjustment sampledRig =
     Some (sampledRig, [(BundleStart, []), (BundleDone, [])])
   \<and> residualFunction sampledRig (replicate 30 0) =
       Some (concat (map (\<lambda>p. [fst p, snd p]) (tenPoints @ tenPoints)))
   \<and> residualFunction sampledRig (replicate 30 1) =
       Some (concat (map (\<lambda>p. [fst p, snd p]) (tenPoints @ tenPoints)))"
  by (simp add: performBundleAdjustment_def residualFunction_def
      calculateReprojectionResiduals_def calculateReprojectedPoint_def vec_at_def
      sampledRig_def rig_def tenPoints_def upto.simps upt_rec)

section \<open>Measurements and triangulation: the claims\<close>

text \<open>
  C4, as the specification has it: mean and standard deviation of depth over the valid
  pixels only.  It fails: of the two pixels of the example depth map the second has no
  disparity and carries the marker depth 10000, and the summary printed is the one over
  both pixels (mean 5500, deviation 4500, band 8820), where the statistics over the valid
  pixels (those with positive disparity) are mean 1000 and deviation 0.
\<close>

theorem measurement_counts_invalid_pixels:
  "calculatePreciseMeasurements cvT depthRig =
     [(MeasurementStart, []), (DepthStatistics, [VReal 5500, VReal 4500, VReal 8820]),
      (MeasurementDone, [])]
   \<and> cv_meanStdDev cvT (depthMap depthRig)
       (Some (cv_compareGT cvT (disparityMap depthRig) 0)) = ((1000, 0, 0, 0), (0, 0, 0, 0))"
  by (simp add: calculatePreciseMeasurements_def depthRig_def rig_def cvT_def
      testMeanStdDev_def sqrt_20250000)

text \<open>
  C4, amended: for a non-empty stored depth map the reporter prints component 0 of the
  mean and of the standard deviation that \<^verbatim>\<open>meanStdDev\<close> computes over the whole map, no
  mask applied, and 1.96 times that deviation as the 95 % band.  The summary is a function
  of the stored depth map alone: two states with the same depth map give the same
  summary, so nothing is accumulated from one pass to the next.
\<close>

theorem measurement_summary:
  assumes "depthMap t = depthMap s"
  shows "calculatePreciseMeasurements cv t = calculatePreciseMeasurements cv s
     \<and> calculatePreciseMeasurements cv s =
         (if cv_empty cv (depthMap s) then [(MeasurementStart, []), (MeasurementDone, [])]
          else [(MeasurementStart, []),
                (DepthStatistics,
                  [VReal (fst (fst (cv_meanStdDev cv (depthMap s) None))),
                   VReal (fst (snd (cv_meanStdDev cv (depthMap s) None))),
                   VReal (fst (snd (cv_meanStdDev cv (depthMap s) None)) * 1.96)]),
                (MeasurementDone, [])])"
  using assms by (simp add: calculatePreciseMeasurements_def split: prod.splits)

text \<open>A state that differs from the example in its frames only has the same summary.\<close>

theorem measurement_summary_witness:
  "depthMap (depthRig\<lparr> currentFrames := [(0, [[7]])], processedFrames := [[[7]], []] \<rparr>)
     = depthMap depthRig
   \<and> calculatePreciseMeasurements cvT
       (depthRig\<lparr> currentFrames := [(0, [[7]])], processedFrames := [[[7]], []] \<rparr>)
     = [(MeasurementStart, []), (DepthStatistics, [VReal 5500, VReal 4500, VReal 8820]),
        (MeasurementDone, [])]"
proof -
  have eq: "depthMap (depthRig\<lparr> currentFrames := [(0, [[7]])], processedFrames := [[[7]], []] \<rparr>)
              = depthMap depthRig"
    by simp
  from measurement_summary[OF eq, of cvT] eq show ?thesis
    by (simp add: depthRig_def rig_def cvT_def testMeanStdDev_def sqrt_20250000)
qed

text \<open>
  C9. \<^verbatim>\<open>perform3DTriangulation\<close> produces no 3D points in any state:
  \<^verbatim>\<open>getCorrespondingPoints\<close> leaves both point lists empty, so a call that gets past the
  two-frame test stops at the test for fewer than 8 correspondences.  Its output is the
  start message and one of the two skip messages; nothing is triangulated or stored.
\<close>

theorem perform3DTriangulation_never_triangulates:
  "getCorrespondingPoints s [] [] = ([], []) \<and>
   perform3DTriangulation cv s =
     Some (if length (currentFrames s) < 2
           then [(TriangulationStart, []), (TriangulationNeedsTwoCameras, [])]
           else [(TriangulationStart, []), (InsufficientCorrespondences, [])])"
  by (simp add: perform3DTriangulation_def getCorrespondingPoints_def)

lemma error_loop:
  assumes "\<forall>i \<in> set is. i < length r1 \<and> i < length p2 \<and> i < length r2"
  shows "for_each
       (\<lambda>i totalError. do {
          r1i \<leftarrow> vec_at r1 (int i);
          p2i \<leftarrow> vec_at p2 (int i);
          r2i \<leftarrow> vec_at r2 (int i);
          let error1 = dist2f (p1 ! i) r1i;
          let error2 = dist2f p2i r2i;
          Some (totalError + (error1 + error2))
        }) is t
     = Some (t + sum_list (map (\<lambda>i. dist2f (p1 ! i) (r1 ! i) + dist2f (p2 ! i) (r2 ! i)) is))"
  using assms by (induction "is" arbitrary: t) (simp_all add: vec_at_def add.assoc)

lemma qualityOf_classes:
  "(qualityOf m = QualityHigh \<longleftrightarrow> m < 1)"
  "(qualityOf m = QualityMedium \<longleftrightarrow> 1 \<le> m \<and> m < 2)"
  "(qualityOf m = QualityLow \<longleftrightarrow> 2 \<le> m)"
  by (auto simp: qualityOf_def)

lemma validateTriangulation_result:
  assumes "wf_state s" "2 \<le> cameraCount s"
    and r1: "reprojected1 = cv_projectPoints cv points3D (cv_zeros cv 3 1) (cv_zeros cv 3 1)
                 (cameraMatrices s ! 0) (distortionCoefficients s ! 0)"
    and r2: "reprojected2 = cv_projectPoints cv points3D (rotationMatrices s ! 1)
                 (translationVectors s ! 1) (cameraMatrices s ! 1) (distortionCoefficients s ! 1)"
    and lens: "length points2 = length points1" "length reprojected1 = length points1"
              "length reprojected2 = length points1"
    and m: "m = sum_list (map (\<lambda>i. dist2f (points1 ! i) (reprojected1 ! i)
                                    + dist2f (points2 ! i) (reprojected2 ! i))
                           [0..<length points1]) / (2 * real (length points1))"
  shows "validateTriangulation cv s points3D points1 points2 =
           Some [(ValidationStart, []), (MeanReprojError, [VReal m]), (qualityOf m, [])]"
proof -
  have idx: "\<forall>i \<in> set [0..<length points1].
               i < length reprojected1 \<and> i < length points2 \<and> i < length reprojected2"
    using lens by simp
  have at0: "vec_at (cameraMatrices s) 0 = Some (cameraMatrices s ! 0)"
    "vec_at (distortionCoefficients s) 0 = Some (distortionCoefficients s ! 0)"
    "vec_at (cameraMatrices s) 1 = Some (cameraMatrices s ! 1)"
    "vec_at (distortionCoefficients s) 1 = Some (distortionCoefficients s ! 1)"
    "vec_at (rotationMatrices s) 1 = Some (rotationMatrices s ! 1)"
    "vec_at (translationVectors s) 1 = Some (translationVectors s ! 1)"
    using assms(1,2) by (simp_all add: wf_state_def vec_at_def)
  show ?thesis
    using error_loop[OF idx, of points1 0] unfolding validateTriangulation_def m r1 r2
    by (simp add: at0 Let_def)
qed

text \<open>
  C6. A triangulation pass over at least 8 correspondences, with \<open>points3D\<close> the points
  it triangulates and \<open>reprojected1\<close>, \<open>reprojected2\<close> their projections into the two
  cameras (one projected point for each correspondence): the error printed is the mean
  \<open>m\<close> over both views of the distances between observed and reprojected points; the
  pass is classified high-quality exactly when \<open>m < 1\<close>, degraded exactly when
  \<open>1 \<le> m < 2\<close> and unreliable exactly when \<open>2 \<le> m\<close>; and in each class all the points
  are handed on to \<^verbatim>\<open>store3DPoints\<close>.
\<close>

theorem triangulation_quality_report:
  assumes "wf_state s" "2 \<le> cameraCount s"
    and p4: "points4D = cv_triangulatePoints cv
                 (cv_hconcat cv (cameraMatrices s ! 0) (cv_zeros cv 3 1))
                 (cv_mul cv (cameraMatrices s ! 1)
                    (cv_hconcat cv (rotationMatrices s ! 1) (translationVectors s ! 1)))
                 points1 points2"
    and p3: "points3D = map (\<lambda>i. (cv_at cv points4D 0 i / cv_at cv points4D 3 i,
                                    cv_at cv points4D 1 i / cv_at cv points4D 3 i,
                                    cv_at cv points4D 2 i / cv_at cv points4D 3 i))
                             [0..cv_cols cv points4D - 1]"
    and r1: "reprojected1 = cv_projectPoints cv points3D (cv_zeros cv 3 1) (cv_zeros cv 3 1)
                 (cameraMatrices s ! 0) (distortionCoefficients s ! 0)"
    and r2: "reprojected2 = cv_projectPoints cv points3D (rotationMatrices s ! 1)
                 (translationVectors s ! 1) (cameraMatrices s ! 1) (distortionCoefficients s ! 1)"
    and lens: "8 \<le> length points1" "length points2 = length points1"
              "length reprojected1 = length points1" "length reprojected2 = length points1"
    and m: "m = sum_list (map (\<lambda>i. dist2f (points1 ! i) (reprojected1 ! i)
                                    + dist2f (points2 ! i) (reprojected2 ! i))
                           [0..<length points1]) / (2 * real (length points1))"
  shows "triangulateCorrespondences cv s points1 points2 =
           Some [(Triangulated, [VNat (length points3D)]),
                 (ValidationStart, []), (MeanReprojError, [VReal m]), (qualityOf m, []),
                 (Storing3DPoints, [VNat (length points3D)])]
       \<and> (qualityOf m = QualityHigh \<longleftrightarrow> m < 1)
       \<and> (qualityOf m = QualityMedium \<longleftrightarrow> 1 \<le> m \<and> m < 2)
       \<and> (qualityOf m = QualityLow \<longleftrightarrow> 2 \<le> m)"
proof -
  have at0: "vec_at (cameraMatrices s) 0 = Some (cameraMatrices s ! 0)"
    "vec_at (cameraMatrices s) 1 = Some (cameraMatrices s ! 1)"
    "vec_at (rotationMatrices s) 1 = Some (rotationMatrices s ! 1)"
    "vec_at (translationVectors s) 1 = Some (translationVectors s ! 1)"
    using assms(1,2) by (simp_all add: wf_state_def vec_at_def)
  note v = validateTriangulation_result[OF assms(1,2) r1 r2 lens(2,3,4) m]
  have "triangulateCorrespondences cv s points1 points2 =
           Some [(Triangulated, [VNat (length points3D)]),
                 (ValidationStart, []), (MeanReprojError, [VReal m]), (qualityOf m, []),
                 (Storing3DPoints, [VNat (length points3D)])]"
    using v unfolding triangulateCorrespondences_def p3 p4
    by (simp add: at0 Let_def store3DPoints_def)
  then show ?thesis by (simp add: qualityOf_classes)
qed

text \<open>Eight correspondences that reproject 6 pixels off in the second view: the mean
  error is 3, the pass is unreliable, and its 8 points are stored all the same.\<close>

theorem triangulation_quality_report_witness:
  "wf_state calibratedRig \<and> 2 \<le> cameraCount calibratedRig \<and> 8 \<le> length eightLeft
   \<and> length eightRight = length eightLeft
   \<and> triangulateCorrespondences cvT calibratedRig eightLeft eightRight =
       Some [(Triangulated, [VNat 8]), (ValidationStart, []), (MeanReprojError, [VReal 3]),
             (QualityLow, []), (Storing3DPoints, [VNat 8])]"
proof -
  have wf: "wf_state calibratedRig" and n: "2 \<le> cameraCount calibratedRig"
    by (simp_all add: wf_state_def calibratedRig_def rig_def)
  have l: "8 \<le> length eightLeft" "length eightRight = length eightLeft"
    by (simp_all add: eightLeft_def eightRight_def)
  let ?p4 = "[map fst eightLeft, map snd eightLeft, map (\<lambda>p. 1) eightLeft,
              map (\<lambda>p. 1) eightLeft]"
  have p4: "?p4 = cv_triangulatePoints cvT
                 (cv_hconcat cvT (cameraMatrices calibratedRig ! 0) (cv_zeros cvT 3 1))
                 (cv_mul cvT (cameraMatrices calibratedRig ! 1)
                    (cv_hconcat cvT (rotationMatrices calibratedRig ! 1)
                       (translationVectors calibratedRig ! 1)))
                 eightLeft eightRight"
    by (simp add: cvT_def)
  have p3: "map (\<lambda>p. (fst p, snd p, 1)) eightLeft =
            map (\<lambda>i. (cv_at cvT ?p4 0 i / cv_at cvT ?p4 3 i,
                       cv_at cvT ?p4 1 i / cv_at cvT ?p4 3 i,
                       cv_at cvT ?p4 2 i / cv_at cvT ?p4 3 i))
                [0..cv_cols cvT ?p4 - 1]"
    by (simp add: cvT_def eightLeft_def upto_0_7 upt_0_8)
  have r1: "eightLeft = cv_projectPoints cvT (map (\<lambda>p. (fst p, snd p, 1)) eightLeft)
                 (cv_zeros cvT 3 1) (cv_zeros cvT 3 1)
                 (cameraMatrices calibratedRig ! 0) (distortionCoefficients calibratedRig ! 0)"
    by (simp add: cvT_def eightLeft_def upt_0_8)
  have r2: "eightLeft = cv_projectPoints cvT (map (\<lambda>p. (fst p, snd p, 1)) eightLeft)
                 (rotationMatrices calibratedRig ! 1) (translationVectors calibratedRig ! 1)
                 (cameraMatrices calibratedRig ! 1) (distortionCoefficients calibratedRig ! 1)"
    by (simp add: cvT_def eightLeft_def upt_0_8)
  have m: "3 = sum_list (map (\<lambda>i. dist2f (eightLeft ! i) (eightLeft ! i)
                                    + dist2f (eightRight ! i) (eightLeft ! i))
                           [0..<length eightLeft]) / (2 * real (length eightLeft))"
    by (simp add: eightLeft_def eightRight_def upt_0_8 dist2f_def sqrt_36)
  from triangulation_quality_report[OF wf n p4 p3 r1 r2 l refl refl m] wf n l
  show ?thesis by (simp add: eightLeft_def qualityOf_def)
qed

section \<open>The frame pipeline: lemmas\<close>














lemma rectified_processedFrames [simp]:
  "rectified cv (s\<lparr> processedFrames := pf \<rparr>) = rectified cv s"
  by (simp add: rectified_def fun_eq_iff)


lemma fold_update_length:
  "length (fold (\<lambda>(c, f) pf. pf[nat c := g c f]) fs pf) = length pf"
  by (induction fs arbitrary: pf) (auto split: prod.splits)
















lemma syncEvents_msgs: "fst ` set (syncEvents T) \<subseteq> {SyncWarning}"
  by (auto simp: syncEvents_def)

text \<open>The hypothesis on the camera ids is needed: a frame of camera 5 on the rig of two
  cameras makes \<^verbatim>\<open>rectifyFrames\<close> write past the end of \<^verbatim>\<open>processedFrames\<close>.\<close>

lemma processMultiFrame_unknown_camera:
  "processMultiFrame cvT rig [[1]] [0] [5] = None"
  by (simp add: processMultiFrame_def checkSynchronization_def decodeOne_def rectifyFrames_def
      rectifyOne_def vec_at_def vec_set_def rig_def cvT_def)

section \<open>The frame pipeline: the claims\<close>









end
